theory Spec2Isabelle
  imports Main "HOL-Library.Word"
begin

unbundle bit_operations_syntax

section \<open>Bytes and Python failures\<close>

text \<open>
  A Python \<open>bytes\<close> value is a list of 8-bit words; reading one element gives a Python
  \<open>int\<close> in 0..255 (\<open>uint\<close>). Every exception the embedded code can raise is a value of
  \<open>py_error\<close>, and a function that can raise returns \<open>py_error + 'a\<close>.
\<close>

type_synonym byte = "8 word"
type_synonym bytes = "byte list"

datatype py_error = IndexError | ValueError | TypeError | StructError | Base64Error

text \<open>\<open>b[i]\<close> for a non-negative index: IndexError out of range.\<close>

definition getitem :: "bytes \<Rightarrow> nat \<Rightarrow> py_error + int" where
  "getitem b i = (if i < length b then Inr (uint (b ! i)) else Inl IndexError)"

section \<open>Key derivation (ctrl.py, \<open>_get_rp_nonce\<close> and \<open>_get_aes_key\<close>)\<close>

text \<open>
  Modelled from the spec: \<open>RP_CRYPT_SIZE\<close> is imported from \<open>const.py\<close>, which is not
  among the sources; the spec fixes the derived nonce and key at 16 bytes.
  The tables \<open>CTRL_KEY_0\<close> and \<open>CTRL_KEY_1\<close> (\<open>keys.py\<close>, absent as well) are
  parameters of the two functions.
\<close>

definition RP_CRYPT_SIZE :: nat where
  "RP_CRYPT_SIZE = 16"

text \<open>
  The body of the \<open>for index in range(0, RP_CRYPT_SIZE)\<close> loop of \<open>_get_rp_nonce\<close>:
  \<open>shift = nonce[index] + 54 + index; shift ^= key[index]; rp_nonce[index] = shift % 256\<close>.
\<close>

fun rp_nonce_loop :: "bytes \<Rightarrow> bytes \<Rightarrow> nat list \<Rightarrow> bytes \<Rightarrow> py_error + bytes" where
  "rp_nonce_loop nonce key [] rp_nonce = Inr rp_nonce"
| "rp_nonce_loop nonce key (index # rest) rp_nonce =
     (case getitem nonce index of
        Inl e \<Rightarrow> Inl e
      | Inr n \<Rightarrow>
         (case getitem key index of
            Inl e \<Rightarrow> Inl e
          | Inr k \<Rightarrow>
             rp_nonce_loop nonce key rest
               (rp_nonce[index := word_of_int (((n + 54 + int index) XOR k) mod 256)])))"

definition get_rp_nonce :: "bytes \<Rightarrow> bytes \<Rightarrow> py_error + bytes" where
  "get_rp_nonce CTRL_KEY_0 nonce =
     (case getitem nonce 0 of
        Inl e \<Rightarrow> Inl e
      | Inr n0 \<Rightarrow>
         rp_nonce_loop nonce (drop (nat (drop_bit 3 n0) * 112) CTRL_KEY_0)
           [0..<RP_CRYPT_SIZE] (replicate RP_CRYPT_SIZE 0))"

text \<open>
  The loop of \<open>_get_aes_key\<close>:
  \<open>shift = (key[index] ^ rp_key[index]) + 33 + index; shift ^= nonce[index];
  aes_key[index] = shift % 256\<close>.
\<close>

fun aes_key_loop :: "bytes \<Rightarrow> bytes \<Rightarrow> bytes \<Rightarrow> nat list \<Rightarrow> bytes \<Rightarrow> py_error + bytes" where
  "aes_key_loop nonce rp_key key [] aes_key = Inr aes_key"
| "aes_key_loop nonce rp_key key (index # rest) aes_key =
     (case getitem key index of
        Inl e \<Rightarrow> Inl e
      | Inr k \<Rightarrow>
         (case getitem rp_key index of
            Inl e \<Rightarrow> Inl e
          | Inr r \<Rightarrow>
             (case getitem nonce index of
                Inl e \<Rightarrow> Inl e
              | Inr n \<Rightarrow>
                 aes_key_loop nonce rp_key key rest
                   (aes_key[index := word_of_int ((((k XOR r) + 33 + int index) XOR n) mod 256)]))))"

definition get_aes_key :: "bytes \<Rightarrow> bytes \<Rightarrow> bytes \<Rightarrow> py_error + bytes" where
  "get_aes_key CTRL_KEY_1 nonce rp_key =
     (case getitem nonce 7 of
        Inl e \<Rightarrow> Inl e
      | Inr n7 \<Rightarrow>
         aes_key_loop nonce rp_key (drop (nat (drop_bit 3 n7) * 112) CTRL_KEY_1)
           [0..<RP_CRYPT_SIZE] (replicate 16 0))"

section \<open>The session cipher\<close>

text \<open>
  Modelled from the spec: \<open>RPCipher\<close> lives in \<open>crypt.py\<close>, which is not among the
  sources. The spec describes a keystream cipher: \<open>encrypt\<close> and \<open>decrypt\<close> XOR the
  buffer against the keystream, return a buffer of the same length and advance the one
  internal keystream position of the instance by the length of the buffer. The keystream
  itself (derived from the AES key and the nonce) is a field of the model.
\<close>

record rp_cipher =
  keystream :: "nat \<Rightarrow> byte"
  counter :: nat

definition xor_keystream :: "rp_cipher \<Rightarrow> bytes \<Rightarrow> bytes" where
  "xor_keystream c buf =
     map2 (XOR) buf (map (keystream c) [counter c ..< counter c + length buf])"

definition encrypt :: "rp_cipher \<Rightarrow> bytes \<Rightarrow> bytes \<times> rp_cipher" where
  "encrypt c buf = (xor_keystream c buf, c\<lparr>counter := counter c + length buf\<rparr>)"

definition decrypt :: "rp_cipher \<Rightarrow> bytes \<Rightarrow> bytes \<times> rp_cipher" where
  "decrypt c buf = (xor_keystream c buf, c\<lparr>counter := counter c + length buf\<rparr>)"

section \<open>Message types and framing (ctrl.py, class \<open>CTRL\<close>)\<close>

datatype MessageType =
    LOGIN_PIN_REQUEST
  | LOGIN_PIN_RESPONSE
  | LOGIN
  | SESSION_ID
  | HEARTBEAT_REQUEST
  | HEARTBEAT_RESPONSE
  | STANDBY
  | KEYBOARD_ENABLE_TOGGLE
  | KEYBOARD_OPEN
  | KEYBOARD_CLOSE_REMOTE
  | KEYBOARD_TEXT_CHANGE_REQ
  | KEYBOARD_TEXT_CHANGE_RES
  | KEYBOARD_CLOSE_REQ

fun MessageType_value :: "MessageType \<Rightarrow> int" where
  "MessageType_value LOGIN_PIN_REQUEST = 0x04"
| "MessageType_value LOGIN_PIN_RESPONSE = 0x8004"
| "MessageType_value LOGIN = 0x05"
| "MessageType_value SESSION_ID = 0x33"
| "MessageType_value HEARTBEAT_REQUEST = 0xfe"
| "MessageType_value HEARTBEAT_RESPONSE = 0x1fe"
| "MessageType_value STANDBY = 0x50"
| "MessageType_value KEYBOARD_ENABLE_TOGGLE = 0x20"
| "MessageType_value KEYBOARD_OPEN = 0x21"
| "MessageType_value KEYBOARD_CLOSE_REMOTE = 0x22"
| "MessageType_value KEYBOARD_TEXT_CHANGE_REQ = 0x23"
| "MessageType_value KEYBOARD_TEXT_CHANGE_RES = 0x24"
| "MessageType_value KEYBOARD_CLOSE_REQ = 0x25"

definition MessageType_members :: "MessageType list" where
  "MessageType_members =
     [LOGIN_PIN_REQUEST, LOGIN_PIN_RESPONSE, LOGIN, SESSION_ID, HEARTBEAT_REQUEST,
      HEARTBEAT_RESPONSE, STANDBY, KEYBOARD_ENABLE_TOGGLE, KEYBOARD_OPEN,
      KEYBOARD_CLOSE_REMOTE, KEYBOARD_TEXT_CHANGE_REQ, KEYBOARD_TEXT_CHANGE_RES,
      KEYBOARD_CLOSE_REQ]"

text \<open>\<open>CTRL.MessageType(v)\<close>: the member with value \<open>v\<close>; \<open>None\<close> stands for ValueError.\<close>

definition MessageType_of :: "int \<Rightarrow> MessageType option" where
  "MessageType_of v = find (\<lambda>m. MessageType_value m = v) MessageType_members"

definition HEADER_LENGTH :: nat where
  "HEADER_LENGTH = 8"

text \<open>The module constant \<open>HEARTBEAT_RESPONSE = b"\x00\x00\x00\x00\x01\xfe\x00\x00"\<close>.\<close>

definition HEARTBEAT_RESPONSE_bytes :: bytes where
  "HEARTBEAT_RESPONSE_bytes = [0x00, 0x00, 0x00, 0x00, 0x01, 0xfe, 0x00, 0x00]"

text \<open>
  \<open>struct\<close> with format \<open>!IHxx{n}s\<close>: an unsigned 32-bit and an unsigned 16-bit integer
  in network order, two pad bytes, then the \<open>n\<close> bytes of the string argument.
  \<open>pack_be k v\<close> is the \<open>k\<close>-byte big-endian representation; \<open>struct.error\<close> is raised
  for an integer outside the range of its field.
\<close>

definition pack_be :: "nat \<Rightarrow> int \<Rightarrow> bytes" where
  "pack_be k v = map (\<lambda>j. word_of_int (drop_bit (8 * j) v)) (rev [0..<k])"

definition pack_into_IHxxs :: "int \<Rightarrow> int \<Rightarrow> bytes \<Rightarrow> py_error + bytes" where
  "pack_into_IHxxs payload_size msg_type payload =
     (if payload_size < 0 \<or> 2 ^ 32 \<le> payload_size \<or> msg_type < 0 \<or> 2 ^ 16 \<le> msg_type
      then Inl StructError
      else Inr (pack_be 4 payload_size @ pack_be 2 msg_type @ [0, 0] @ payload))"

text \<open>\<open>from_b\<close> of util.py with the default order: \<open>int.from_bytes(_bytes, "big")\<close>.\<close>

definition from_b :: "bytes \<Rightarrow> int" where
  "from_b bs = fold (\<lambda>b acc. acc * 256 + uint b) bs 0"

text \<open>
  \<open>CTRL._build_msg\<close>: the cipher is advanced by \<open>self._cipher.encrypt(payload)\<close>, whose
  return value the source does not use; \<open>pack_into\<close> is given \<open>payload\<close> itself.
  The result is the cipher after the call and the frame (or the error of \<open>pack_into\<close>).
\<close>

definition build_msg :: "rp_cipher \<Rightarrow> int \<Rightarrow> bytes \<Rightarrow> rp_cipher \<times> (py_error + bytes)" where
  "build_msg c msg_type payload =
     (let payload_size = length payload;
          c' = snd (encrypt c payload)
      in (c', pack_into_IHxxs (int payload_size) msg_type payload))"

section \<open>Clock values\<close>

text \<open>
  \<open>time.time()\<close> returns a double, an IEEE 754 binary64 number. \<open>F64 m e\<close> stands for
  the finite double of value \<open>m * 2 ^ e\<close>. \<open>float_sub\<close> is the subtraction of two finite
  doubles (\<open>bitlen\<close> counts the binary digits of a positive integer): the exact
  difference, rounded to the nearest number with 53 significant bits
  (and no bit below \<open>2 ^ -1074\<close>), ties going to the even significand. Where the hardware
  would overflow to an infinity, the rounded value kept here has the same sign and lies
  above every double, so a comparison with an integer gives the same answer.
  \<open>float_gt_int x n\<close> is the comparison \<open>x > n\<close> of a double with a Python \<open>int\<close>, which
  is exact.
\<close>

datatype float64 = F64 int int

function bitlen :: "int \<Rightarrow> nat" where
  "bitlen m = (if m \<le> 0 then 0 else Suc (bitlen (m div 2)))"
  by pat_completeness auto
termination
  by (relation "measure nat") auto

declare bitlen.simps [simp del]

definition round_half_even :: "int \<Rightarrow> nat \<Rightarrow> int" where
  "round_half_even m k =
     (if k = 0 then m
      else
        (let q = m div 2 ^ k; r = m mod 2 ^ k; h = 2 ^ (k - 1)
         in if r < h then q else if h < r then q + 1 else if even q then q else q + 1))"

fun float_sub :: "float64 \<Rightarrow> float64 \<Rightarrow> float64" where
  "float_sub (F64 m1 e1) (F64 m2 e2) =
     (let e = min e1 e2;
          m = m1 * 2 ^ nat (e1 - e) - m2 * 2 ^ nat (e2 - e);
          q = max (int (bitlen \<bar>m\<bar>) + e - 53) (- 1074)
      in if q \<le> e then F64 m e else F64 (round_half_even m (nat (q - e))) q)"

fun float_gt_int :: "float64 \<Rightarrow> int \<Rightarrow> bool" where
  "float_gt_int (F64 m e) n =
     (if 0 \<le> e then n < m * 2 ^ nat e else n * 2 ^ nat (- e) < m)"

section \<open>The control session\<close>

text \<open>
  The fields of a \<open>CTRL\<close> object that the embedded methods read or write.
  \<open>sock\<close> is the list of buffers handed to \<open>self._sock.send\<close>, oldest first;
  \<open>send_buf\<close> is the \<open>queue.Queue\<close> \<open>self._send_buf\<close>, oldest first;
  \<open>logged\<close> collects the records written at level info, warning or error;
  \<open>calls\<close> collects the calls into collaborators outside the sources (the callback
  \<open>cb_start\<close> and the stream started by \<open>start_stream\<close>), whose own effects are not
  part of the model; \<open>worker\<close> tells whether \<open>start\<close> has launched the listener thread.
  Each value of \<open>time.time()\<close> is a parameter, a double; \<open>hb_last\<close> starts as the
  integer 0, which the subtraction converts to the double 0.
  The record describes a session whose handshake has installed the cipher.
\<close>

datatype Error =
    REGIST_FAILED
  | INVALID_PSN_ID
  | RP_IN_USE
  | CRASH
  | RP_VERSION_MISMATCH
  | UNKNOWN

fun Error_value :: "Error \<Rightarrow> int" where
  "Error_value REGIST_FAILED = 0x80108b09"
| "Error_value INVALID_PSN_ID = 0x80108b02"
| "Error_value RP_IN_USE = 0x80108b10"
| "Error_value CRASH = 0x80108b15"
| "Error_value RP_VERSION_MISMATCH = 0x80108b11"
| "Error_value UNKNOWN = 0x80108bff"

definition Error_members :: "Error list" where
  "Error_members = [REGIST_FAILED, INVALID_PSN_ID, RP_IN_USE, CRASH, RP_VERSION_MISMATCH, UNKNOWN]"

text \<open>\<open>CTRL.Error(v)\<close>: \<open>None\<close> stands for ValueError.\<close>

definition Error_of :: "int \<Rightarrow> Error option" where
  "Error_of v = find (\<lambda>e. Error_value e = v) Error_members"

datatype log_event =
    LogInvalidMessageType int
  | LogMalformedSessionID
  | LogHBTimeout
  | LogSessionIDNotReceived
  | LogFailedInit Error
  | LogFailedAuth
  | LogAuthSuccess
  | LogCouldNotDetect

datatype ext_call = CbStart | StreamConnect

definition STATE_INIT :: string where
  "STATE_INIT = ''init''"

definition STATE_READY :: string where
  "STATE_READY = ''ready''"

record ctrl =
  session_id :: bytes
  sock :: "bytes list"
  send_buf :: "bytes list"
  hb_last :: float64
  cipher :: rp_cipher
  state :: string
  has_cb_start :: bool
  logged :: "log_event list"
  calls :: "ext_call list"
  worker :: bool

text \<open>\<open>CTRL.__init__\<close>, for the fields above.\<close>

definition CTRL_init :: "rp_cipher \<Rightarrow> bool \<Rightarrow> ctrl" where
  "CTRL_init c cb =
     \<lparr>session_id = [], sock = [], send_buf = [], hb_last = F64 0 0, cipher = c,
      state = STATE_INIT, has_cb_start = cb, logged = [], calls = [], worker = False\<rparr>"

text \<open>
  \<open>session_id.decode()\<close> decodes strict UTF-8 and raises UnicodeDecodeError on an
  ill-formed sequence. \<open>utf8_valid\<close> is the well-formedness test of that decoder: shortest
  form only, no surrogates, nothing above U+10FFFF.
\<close>

definition cont :: "byte \<Rightarrow> bool" where
  "cont b = (0x80 \<le> b \<and> b \<le> 0xBF)"

fun utf8_valid :: "bytes \<Rightarrow> bool" where
  "utf8_valid [] = True"
| "utf8_valid (b0 # rest) =
     (if b0 < 0x80 then utf8_valid rest
      else if 0xC2 \<le> b0 \<and> b0 \<le> 0xDF then
        (case rest of b1 # r \<Rightarrow> cont b1 \<and> utf8_valid r | _ \<Rightarrow> False)
      else if 0xE0 \<le> b0 \<and> b0 \<le> 0xEF then
        (case rest of
           b1 # b2 # r \<Rightarrow>
             (if b0 = 0xE0 then 0xA0 \<le> b1 \<and> b1 \<le> 0xBF
              else if b0 = 0xED then 0x80 \<le> b1 \<and> b1 \<le> 0x9F
              else cont b1) \<and> cont b2 \<and> utf8_valid r
         | _ \<Rightarrow> False)
      else if 0xF0 \<le> b0 \<and> b0 \<le> 0xF4 then
        (case rest of
           b1 # b2 # b3 # r \<Rightarrow>
             (if b0 = 0xF0 then 0x90 \<le> b1 \<and> b1 \<le> 0xBF
              else if b0 = 0xF4 then 0x80 \<le> b1 \<and> b1 \<le> 0x8F
              else cont b1) \<and> cont b2 \<and> cont b3 \<and> utf8_valid r
         | _ \<Rightarrow> False)
      else False)"

subsection \<open>Outbound helpers\<close>

text \<open>\<open>self._sock.send(msg)\<close> after \<open>msg = self._build_msg(msg_type, payload)\<close>.\<close>

definition send_msg :: "ctrl \<Rightarrow> int \<Rightarrow> bytes \<Rightarrow> py_error + ctrl" where
  "send_msg s msg_type payload =
     (case build_msg (cipher s) msg_type payload of
        (c, Inl e) \<Rightarrow> Inl e
      | (c, Inr msg) \<Rightarrow> Inr (s\<lparr>cipher := c, sock := sock s @ [msg]\<rparr>))"

definition send_hb_response :: "ctrl \<Rightarrow> py_error + ctrl" where
  "send_hb_response s =
     send_msg s (MessageType_value HEARTBEAT_RESPONSE) HEARTBEAT_RESPONSE_bytes"

definition send_hb_request :: "ctrl \<Rightarrow> py_error + ctrl" where
  "send_hb_request s = send_msg s (MessageType_value HEARTBEAT_REQUEST) []"

definition send_standby :: "ctrl \<Rightarrow> py_error + ctrl" where
  "send_standby s = send_msg s (MessageType_value STANDBY) []"

text \<open>\<open>CTRL.send\<close>: one queued buffer, if there is one, goes to the socket.\<close>

definition send :: "ctrl \<Rightarrow> ctrl" where
  "send s =
     (case send_buf s of
        [] \<Rightarrow> s
      | data_send # q \<Rightarrow> s\<lparr>send_buf := q, sock := sock s @ [data_send]\<rparr>)"

subsection \<open>Dispatch (\<open>CTRL._handle\<close>)\<close>

text \<open>
  \<open>start_stream()\<close> with its default \<open>test=True\<close>: without a session id it logs an
  error and returns; otherwise it builds the stream and connects it.
\<close>

definition start_stream :: "ctrl \<Rightarrow> ctrl" where
  "start_stream s =
     (if session_id s = [] then s\<lparr>logged := logged s @ [LogSessionIDNotReceived]\<rparr>
      else s\<lparr>calls := calls s @ [StreamConnect]\<rparr>)"

text \<open>Lines 234 to 237: \<open>payload = data[8:]\<close>, decrypted when it is not empty.\<close>

definition handle_payload :: "ctrl \<Rightarrow> bytes \<Rightarrow> bytes \<times> ctrl" where
  "handle_payload s data =
     (let payload = drop 8 data
      in if payload \<noteq> [] then
           (case decrypt (cipher s) payload of (p, c) \<Rightarrow> (p, s\<lparr>cipher := c\<rparr>))
         else (payload, s))"

text \<open>
  Line 239: \<open>CTRL.MessageType(data[5])\<close>. The IndexError of \<open>data[5]\<close> is not a
  ValueError and leaves \<open>_handle\<close>; the ValueError of the enumeration is \<open>Inr (v, None)\<close>.
\<close>

definition handle_msg_type :: "bytes \<Rightarrow> py_error + int \<times> MessageType option" where
  "handle_msg_type data =
     (case getitem data 5 of
        Inl e \<Rightarrow> Inl e
      | Inr v \<Rightarrow> Inr (v, MessageType_of v))"

text \<open>Lines 264 to 266, with \<open>now\<close> the value of \<open>time.time()\<close> on line 264.\<close>

definition hb_check :: "float64 \<Rightarrow> ctrl \<Rightarrow> py_error + ctrl" where
  "hb_check now s =
     (if float_gt_int (float_sub now (hb_last s)) 5
      then send_hb_request (s\<lparr>logged := logged s @ [LogHBTimeout]\<rparr>)
      else Inr s)"

text \<open>
  \<open>_handle(data)\<close>. \<open>t_hb\<close> is the value of \<open>time.time()\<close> on line 245 or 248 (at most
  one of the two runs), \<open>t_chk\<close> its value on line 264.
\<close>

definition handle :: "float64 \<Rightarrow> float64 \<Rightarrow> ctrl \<Rightarrow> bytes \<Rightarrow> py_error + ctrl" where
  "handle t_hb t_chk s data =
     (case handle_payload s data of (payload, s1) \<Rightarrow>
        (case handle_msg_type data of
           Inl e \<Rightarrow> Inl e
         | Inr (v, None) \<Rightarrow> Inr (s1\<lparr>logged := logged s1 @ [LogInvalidMessageType v]\<rparr>)
         | Inr (v, Some msg_type) \<Rightarrow>
            (case (if msg_type = HEARTBEAT_REQUEST
                   then send_hb_response (s1\<lparr>hb_last := t_hb\<rparr>)
                   else Inr s1) of
               Inl e \<Rightarrow> Inl e
             | Inr s2 \<Rightarrow>
                (if msg_type = HEARTBEAT_RESPONSE then hb_check t_chk (s2\<lparr>hb_last := t_hb\<rparr>)
                 else if msg_type = SESSION_ID then
                   (let sid = drop 2 payload
                    in if \<not> utf8_valid sid
                       then Inr (s2\<lparr>logged := logged s2 @ [LogMalformedSessionID]\<rparr>)
                       else
                         (let s3 = s2\<lparr>session_id := sid\<rparr>;
                              s4 = (if has_cb_start s3 then s3\<lparr>calls := calls s3 @ [CbStart]\<rparr>
                                    else start_stream s3)
                          in hb_check t_chk s4))
                 else hb_check t_chk s2))))"

subsection \<open>The receive loop (util.py, \<open>listener\<close>)\<close>

text \<open>
  Each turn of the \<open>while\<close> loop sees one event of the socket: \<open>select\<close> does not
  report it readable (\<open>Idle\<close>), or \<open>recv\<close> returns a buffer. A buffer comes with what
  the handler reads from its environment while it runs (for \<open>_handle\<close>, the clock).
  The loop is run over a finite list of events; when the list ends with the stop event
  unset the loop is still polling, and once the stop event is set the loop ends and the
  socket is closed. An exception of the handler leaves the loop.
\<close>

datatype 'e sock_event = Idle | Recv bytes 'e

record 's worker_state =
  stop_event :: bool
  sock_closed :: bool
  session :: 's

fun listener_loop ::
  "('e \<Rightarrow> 's \<Rightarrow> bytes \<Rightarrow> py_error + 's) \<Rightarrow> 's worker_state \<Rightarrow> 'e sock_event list
     \<Rightarrow> py_error + 's worker_state" where
  "listener_loop hdl w [] = (if stop_event w then Inr (w\<lparr>sock_closed := True\<rparr>) else Inr w)"
| "listener_loop hdl w (ev # evs) =
     (if stop_event w then Inr (w\<lparr>sock_closed := True\<rparr>)
      else
        (case ev of
           Idle \<Rightarrow> listener_loop hdl w evs
         | Recv data env \<Rightarrow>
            (if length data > 0 then
               (case hdl env (session w) data of
                  Inl e \<Rightarrow> Inl e
                | Inr s' \<Rightarrow> listener_loop hdl (w\<lparr>session := s'\<rparr>) evs)
             else listener_loop hdl (w\<lparr>stop_event := True\<rparr>) evs)))"

definition listener ::
  "('e \<Rightarrow> 's \<Rightarrow> bytes \<Rightarrow> py_error + 's) \<Rightarrow> 's worker_state \<Rightarrow> 'e sock_event list
     \<Rightarrow> py_error + 's worker_state" where
  "listener hdl w evs = listener_loop hdl (w\<lparr>stop_event := False\<rparr>) evs"

text \<open>The handler that \<open>CTRL.start\<close> gives to the listener: \<open>self._handle\<close>.\<close>

definition ctrl_handle :: "float64 \<times> float64 \<Rightarrow> ctrl \<Rightarrow> bytes \<Rightarrow> py_error + ctrl" where
  "ctrl_handle env s data = handle (fst env) (snd env) s data"

section \<open>The init phase of the handshake\<close>

text \<open>
  An HTTP response as \<open>_parse_init\<close> reads it: the status code and the headers.
  \<open>response.headers\<close> is a case-insensitive dictionary: \<open>headers\<close> lists its items in the
  order they were set, a name is looked up without regard to the case of its ASCII
  letters, and of two items with the same name the one set later is found.
  \<open>lower\<close> gives the character codes of \<open>str.lower()\<close> for an ASCII name.
\<close>

record response =
  status_code :: int
  headers :: "(string \<times> string) list"

definition lower :: "string \<Rightarrow> nat list" where
  "lower cs = map (\<lambda>c. let n = of_char c in if 65 \<le> n \<and> n \<le> 90 then n + 32 else n) cs"

definition headers_get :: "response \<Rightarrow> string \<Rightarrow> string option" where
  "headers_get r name =
     map_option snd (find (\<lambda>item. lower (fst item) = lower name) (rev (headers r)))"

text \<open>
  \<open>bytes.fromhex\<close>: ASCII whitespace is skipped in front of a pair of hexadecimal
  digits; anything else raises ValueError.
\<close>

definition isspace :: "char \<Rightarrow> bool" where
  "isspace c = (of_char c \<in> {9, 10, 11, 12, 13, 32 :: nat})"

definition hexval :: "char \<Rightarrow> nat option" where
  "hexval c =
     (let n = of_char c :: nat
      in if 48 \<le> n \<and> n \<le> 57 then Some (n - 48)
         else if 65 \<le> n \<and> n \<le> 70 then Some (n - 55)
         else if 97 \<le> n \<and> n \<le> 102 then Some (n - 87)
         else None)"

fun fromhex :: "string \<Rightarrow> py_error + bytes" where
  "fromhex [] = Inr []"
| "fromhex (c # cs) =
     (if isspace c then fromhex cs
      else
        (case cs of
           [] \<Rightarrow> Inl ValueError
         | d # ds \<Rightarrow>
            (case (hexval c, hexval d) of
               (Some h, Some l) \<Rightarrow>
                 (case fromhex ds of
                    Inl e \<Rightarrow> Inl e
                  | Inr bs \<Rightarrow> Inr (word_of_nat (16 * h + l) # bs))
             | _ \<Rightarrow> Inl ValueError)))"

text \<open>
  \<open>CTRL._parse_init\<close>. \<open>b64decode\<close> (of the standard library) is a parameter.
  A missing reason header makes \<open>bytes.fromhex(None)\<close> raise TypeError.
\<close>

definition parse_init ::
  "(string \<Rightarrow> py_error + bytes) \<Rightarrow> ctrl \<Rightarrow> response \<Rightarrow> py_error + ctrl \<times> bytes option" where
  "parse_init b64decode s resp =
     (case (if status_code resp \<noteq> 200 then
              (case headers_get resp ''RP-Application-Reason'' of
                 None \<Rightarrow> Inl TypeError
               | Some reason \<Rightarrow>
                  (case fromhex reason of
                     Inl e \<Rightarrow> Inl e
                   | Inr bs \<Rightarrow>
                      (case Error_of (from_b bs) of
                         None \<Rightarrow> Inl ValueError
                       | Some err \<Rightarrow> Inr (s\<lparr>logged := logged s @ [LogFailedInit err]\<rparr>))))
            else Inr s) of
        Inl e \<Rightarrow> Inl e
      | Inr s' \<Rightarrow>
         (case headers_get resp ''RP-Nonce'' of
            None \<Rightarrow> Inr (s', None)
          | Some nonce \<Rightarrow>
             (case b64decode nonce of
                Inl e \<Rightarrow> Inl e
              | Inr n \<Rightarrow> Inr (s', Some n))))"

text \<open>
  \<open>CTRL.connect\<close>, given the response of \<open>_init_ctrl\<close>. The key and auth phases
  (\<open>_get_ctrl_headers\<close> and \<open>_send_auth\<close>, which talk to the network) are the
  parameter \<open>auth\<close>; it is not called when \<open>_parse_init\<close> returns \<open>None\<close>.
\<close>

definition connect ::
  "(string \<Rightarrow> py_error + bytes) \<Rightarrow> (ctrl \<Rightarrow> bytes \<Rightarrow> py_error + ctrl \<times> bool) \<Rightarrow> ctrl \<Rightarrow> response
     \<Rightarrow> py_error + ctrl \<times> bool" where
  "connect b64decode auth s resp =
     (case parse_init b64decode s resp of
        Inl e \<Rightarrow> Inl e
      | Inr (s', None) \<Rightarrow> Inr (s', False)
      | Inr (s', Some nonce) \<Rightarrow> auth s' nonce)"

text \<open>
  \<open>CTRL.start\<close>. \<open>host_ok\<close> tells whether the discovery helper called by
  \<open>_check_host\<close> found the device; if not, \<open>_check_host\<close> logs an error. \<open>start\<close>
  returns \<open>False\<close> on failure and falls off its end (\<open>None\<close>) after it has started the
  worker thread. The thread is given \<open>listener\<close> with five arguments, \<open>self.send\<close> among
  them, where \<open>listener\<close> takes four; what the thread then does is not part of \<open>start\<close>.
\<close>

definition start ::
  "bool \<Rightarrow> (string \<Rightarrow> py_error + bytes) \<Rightarrow> (ctrl \<Rightarrow> bytes \<Rightarrow> py_error + ctrl \<times> bool) \<Rightarrow> ctrl
     \<Rightarrow> response \<Rightarrow> py_error + ctrl \<times> bool option" where
  "start host_ok b64decode auth s resp =
     (if \<not> host_ok then Inr (s\<lparr>logged := logged s @ [LogCouldNotDetect]\<rparr>, Some False)
      else
        (case connect b64decode auth s resp of
           Inl e \<Rightarrow> Inl e
         | Inr (s', ok) \<Rightarrow>
            (if \<not> ok then Inr (s'\<lparr>logged := logged s' @ [LogFailedAuth]\<rparr>, Some False)
             else Inr (s'\<lparr>logged := logged s' @ [LogAuthSuccess], state := STATE_READY,
                          worker := True\<rparr>, None))))"

section \<open>A concrete session for the examples\<close>

text \<open>
  A keystream and a cipher at position 0, used where a property is evaluated on a
  concrete session.
\<close>

definition example_keystream :: "nat \<Rightarrow> byte" where
  "example_keystream i = word_of_nat (37 * i + 11)"

definition example_cipher :: rp_cipher where
  "example_cipher = \<lparr>keystream = example_keystream, counter = 0\<rparr>"

section \<open>Key derivation: results\<close>

lemma fold_update_length:
  "length (fold (\<lambda>i a. a[i := f i]) is acc) = length acc"
  by (induction "is" arbitrary: acc) simp_all

lemma fold_update_upt_nth:
  "i < n \<Longrightarrow> n \<le> length acc \<Longrightarrow> fold (\<lambda>i a. a[i := f i]) [0..<n] acc ! i = f i"
proof (induction n)
  case 0
  then show ?case by simp
next
  case (Suc n)
  show ?case
  proof (cases "i = n")
    case True
    with Suc.prems show ?thesis by (simp add: fold_update_length)
  next
    case False
    with Suc.prems have "i < n" by simp
    with Suc show ?thesis by (simp add: fold_update_length)
  qed
qed

lemma rp_nonce_loop_fold:
  "\<forall>i \<in> set is. i < length nonce \<and> i < length key \<Longrightarrow>
   rp_nonce_loop nonce key is acc =
     Inr (fold (\<lambda>i a. a[i := word_of_int (((uint (nonce ! i) + 54 + int i) XOR uint (key ! i)) mod 256)])
            is acc)"
  by (induction "is" arbitrary: acc) (simp_all add: getitem_def)

lemma aes_key_loop_fold:
  "\<forall>i \<in> set is. i < length nonce \<and> i < length key \<and> i < length rp_key \<Longrightarrow>
   aes_key_loop nonce rp_key key is acc =
     Inr (fold (\<lambda>i a. a[i := word_of_int
                 ((((uint (key ! i) XOR uint (rp_key ! i)) + 33 + int i) XOR uint (nonce ! i)) mod 256)])
            is acc)"
  by (induction "is" arbitrary: acc) (simp_all add: getitem_def)

lemma uint_byte_of_mod_256: "uint (word_of_int (x mod 256) :: byte) = x mod 256"
  by (simp add: uint_word_of_int)

lemma block_offset_bound: "nat (drop_bit 3 (uint (b :: byte))) * 112 \<le> 3472"
proof -
  have "uint b < 256" using uint_bounded [of b] by simp
  then have "drop_bit 3 (uint b) < 32" by (simp add: drop_bit_eq_div)
  then show ?thesis by simp
qed

text \<open>
  Claim C4. For a 16-byte server nonce and a 16-byte pairing key (and tables that hold the
  32 blocks of 112 bytes a nonce byte can select, of which the last is read up to its
  16th byte), both derivations return 16 bytes, with
  \<open>rp_nonce[i] = ((nonce[i] + 54 + i) XOR CTRL_KEY_0[(nonce[0] >> 3) * 112 + i]) mod 256\<close>
  and
  \<open>aes_key[i] = (((CTRL_KEY_1[(nonce[7] >> 3) * 112 + i] XOR rp_key[i]) + 33 + i) XOR nonce[i]) mod 256\<close>.
  Being functions of their arguments, both are deterministic.
\<close>

theorem key_derivation_bytes:
  assumes nonce: "length nonce = 16" and rp_key: "length rp_key = 16"
    and K0: "3488 \<le> length CTRL_KEY_0" and K1: "3488 \<le> length CTRL_KEY_1"
  shows "\<exists>rp_nonce aes_key.
           get_rp_nonce CTRL_KEY_0 nonce = Inr rp_nonce \<and> length rp_nonce = 16 \<and>
           get_aes_key CTRL_KEY_1 nonce rp_key = Inr aes_key \<and> length aes_key = 16 \<and>
           (\<forall>i < 16.
              uint (rp_nonce ! i) =
                ((uint (nonce ! i) + 54 + int i) XOR
                 uint (CTRL_KEY_0 ! (nat (drop_bit 3 (uint (nonce ! 0))) * 112 + i))) mod 256 \<and>
              uint (aes_key ! i) =
                (((uint (CTRL_KEY_1 ! (nat (drop_bit 3 (uint (nonce ! 7))) * 112 + i)) XOR
                   uint (rp_key ! i)) + 33 + int i) XOR uint (nonce ! i)) mod 256)"
proof -
  define o0 where "o0 = nat (drop_bit 3 (uint (nonce ! 0))) * 112"
  define o1 where "o1 = nat (drop_bit 3 (uint (nonce ! 7))) * 112"
  have o0: "o0 \<le> 3472" unfolding o0_def by (rule block_offset_bound)
  have o1: "o1 \<le> 3472" unfolding o1_def by (rule block_offset_bound)
  define f where "f = (\<lambda>i. word_of_int (((uint (nonce ! i) + 54 + int i) XOR
                      uint (drop o0 CTRL_KEY_0 ! i)) mod 256) :: byte)"
  define g where "g = (\<lambda>i. word_of_int ((((uint (drop o1 CTRL_KEY_1 ! i) XOR uint (rp_key ! i))
                      + 33 + int i) XOR uint (nonce ! i)) mod 256) :: byte)"
  define out0 where "out0 = fold (\<lambda>i a. a[i := f i]) [0..<16] (replicate 16 0)"
  define out1 where "out1 = fold (\<lambda>i a. a[i := g i]) [0..<16] (replicate 16 0)"
  have k0: "\<forall>i \<in> set [0..<16]. i < length nonce \<and> i < length (drop o0 CTRL_KEY_0)"
    using nonce K0 o0 by auto
  have k1: "\<forall>i \<in> set [0..<16]. i < length nonce \<and> i < length (drop o1 CTRL_KEY_1) \<and>
      i < length rp_key"
    using nonce rp_key K1 o1 by auto
  have n0: "getitem nonce 0 = Inr (uint (nonce ! 0))" "getitem nonce 7 = Inr (uint (nonce ! 7))"
    using nonce by (simp_all add: getitem_def)
  have r0: "get_rp_nonce CTRL_KEY_0 nonce = Inr out0"
    unfolding get_rp_nonce_def n0 RP_CRYPT_SIZE_def out0_def f_def
    using rp_nonce_loop_fold [OF k0] by (simp add: o0_def)
  have r1: "get_aes_key CTRL_KEY_1 nonce rp_key = Inr out1"
    unfolding get_aes_key_def n0 RP_CRYPT_SIZE_def out1_def g_def
    using aes_key_loop_fold [OF k1] by (simp add: o1_def)
  have l0: "length out0 = 16" by (simp add: out0_def fold_update_length)
  have l1: "length out1 = 16" by (simp add: out1_def fold_update_length)
  have b: "uint (out0 ! i) =
        ((uint (nonce ! i) + 54 + int i) XOR uint (CTRL_KEY_0 ! (o0 + i))) mod 256 \<and>
      uint (out1 ! i) =
        (((uint (CTRL_KEY_1 ! (o1 + i)) XOR uint (rp_key ! i)) + 33 + int i) XOR
          uint (nonce ! i)) mod 256" if "i < 16" for i
  proof -
    have "out0 ! i = f i" "out1 ! i = g i"
      using that by (simp_all add: out0_def out1_def fold_update_upt_nth)
    moreover have "drop o0 CTRL_KEY_0 ! i = CTRL_KEY_0 ! (o0 + i)"
      "drop o1 CTRL_KEY_1 ! i = CTRL_KEY_1 ! (o1 + i)"
      using that K0 K1 o0 o1 by simp_all
    ultimately show ?thesis
      by (simp add: f_def g_def uint_byte_of_mod_256)
  qed
  show ?thesis
    using r0 r1 l0 l1 b unfolding o0_def o1_def by blast
qed


theorem key_derivation_bytes_witness:
  "length (map word_of_nat [0..<16] :: bytes) = 16 \<and>
   length (map word_of_nat [16..<32] :: bytes) = 16 \<and>
   3488 \<le> length (replicate 3584 (0x5A :: byte)) \<and>
   3488 \<le> length (replicate 3584 (0xA5 :: byte)) \<and>
   (\<exists>rp_nonce aes_key.
      get_rp_nonce (replicate 3584 0x5A) (map word_of_nat [0..<16]) = Inr rp_nonce \<and>
      length rp_nonce = 16 \<and>
      get_aes_key (replicate 3584 0xA5) (map word_of_nat [0..<16]) (map word_of_nat [16..<32])
        = Inr aes_key \<and>
      length aes_key = 16)"
proof -
  have n: "length (map word_of_nat [0..<16] :: bytes) = 16"
    and k: "length (map word_of_nat [16..<32] :: bytes) = 16"
    and t0: "3488 \<le> length (replicate 3584 (0x5A :: byte))"
    and t1: "3488 \<le> length (replicate 3584 (0xA5 :: byte))"
    by simp_all
  from key_derivation_bytes [OF n k t0 t1] n k t0 t1 show ?thesis
    by blast
qed

section \<open>The cipher, the framing and the helpers: basic facts\<close>

lemma xor_keystream_length: "length (xor_keystream c buf) = length buf"
  by (simp add: xor_keystream_def)

lemma xor_keystream_Nil: "xor_keystream c [] = []"
  by (simp add: xor_keystream_def)

lemma xor_keystream_nth:
  "i < length buf \<Longrightarrow> xor_keystream c buf ! i = buf ! i XOR keystream c (counter c + i)"
  by (simp add: xor_keystream_def)

lemma xor_keystream_involution:
  "counter c' = counter c \<Longrightarrow> keystream c' = keystream c \<Longrightarrow>
   xor_keystream c' (xor_keystream c buf) = buf"
  by (rule nth_equalityI)
    (simp_all add: xor_keystream_length xor_keystream_nth bit.xor_self xor.assoc)

lemma handle_payload_eq:
  "handle_payload s data =
     (xor_keystream (cipher s) (drop 8 data),
      s\<lparr>cipher := (cipher s)\<lparr>counter := counter (cipher s) + (length data - 8)\<rparr>\<rparr>)"
  by (simp add: handle_payload_def decrypt_def xor_keystream_Nil Let_def)

lemma MessageType_of_Some: "MessageType_of v = Some m \<Longrightarrow> MessageType_value m = v"
  by (auto simp: MessageType_of_def MessageType_members_def split: if_splits)

lemma MessageType_of_byte:
  "MessageType_of (uint (b :: byte)) \<noteq> Some HEARTBEAT_RESPONSE"
  "MessageType_of (uint (b :: byte)) \<noteq> Some LOGIN_PIN_RESPONSE"
  using uint_bounded [of b] by (auto dest!: MessageType_of_Some)

lemma pack_be_4:
  "pack_be 4 v = [word_of_int (drop_bit 24 v), word_of_int (drop_bit 16 v),
     word_of_int (drop_bit 8 v), word_of_int v]"
  by (simp add: pack_be_def upt_rec)

lemma pack_be_2: "pack_be 2 v = [word_of_int (drop_bit 8 v), word_of_int v]"
  by (simp add: pack_be_def upt_rec)

lemma build_msg_eq:
  assumes "0 \<le> msg_type" and "msg_type < 2 ^ 16" and "length payload < 2 ^ 32"
  shows "build_msg c msg_type payload =
     (c\<lparr>counter := counter c + length payload\<rparr>,
      Inr (pack_be 4 (int (length payload)) @ pack_be 2 msg_type @ [0, 0] @ payload))"
proof -
  have "int (length payload) < 2 ^ 32" using assms(3) by (simp flip: of_nat_less_iff)
  with assms(1,2) show ?thesis
    by (simp add: build_msg_def encrypt_def pack_into_IHxxs_def Let_def)
qed

lemma send_hb_request_eq:
  "send_hb_request s = Inr (s\<lparr>sock := sock s @ [[0, 0, 0, 0, 0, 0xfe, 0, 0]]\<rparr>)"
  by (simp add: send_hb_request_def send_msg_def build_msg_def encrypt_def pack_into_IHxxs_def
      pack_be_4 pack_be_2)

lemma send_standby_eq:
  "send_standby s = Inr (s\<lparr>sock := sock s @ [[0, 0, 0, 0, 0, 0x50, 0, 0]]\<rparr>)"
  by (simp add: send_standby_def send_msg_def build_msg_def encrypt_def pack_into_IHxxs_def
      pack_be_4 pack_be_2)

lemma send_hb_response_eq:
  "send_hb_response s =
     Inr (s\<lparr>cipher := (cipher s)\<lparr>counter := counter (cipher s) + 8\<rparr>,
            sock := sock s @ [[0, 0, 0, 8, 1, 0xfe, 0, 0] @ HEARTBEAT_RESPONSE_bytes]\<rparr>)"
  by (simp add: send_hb_response_def send_msg_def build_msg_def encrypt_def pack_into_IHxxs_def
      pack_be_4 pack_be_2 HEARTBEAT_RESPONSE_bytes_def)

lemma bitlen_numeral:
  "bitlen 0 = 0" "bitlen 1 = 1" "bitlen (numeral k) = Suc (bitlen (numeral k div 2))"
  by (simp_all add: bitlen.simps)


lemma handle_msg_type_short: "length data < 6 \<Longrightarrow> handle_msg_type data = Inl IndexError"
  by (simp add: handle_msg_type_def getitem_def)

lemma handle_msg_type_eq:
  "6 \<le> length data \<Longrightarrow>
   handle_msg_type data = Inr (uint (data ! 5), MessageType_of (uint (data ! 5)))"
  by (simp add: handle_msg_type_def getitem_def)

lemma hb_check_eq:
  "hb_check now s =
     Inr (if float_gt_int (float_sub now (hb_last s)) 5
          then s\<lparr>logged := logged s @ [LogHBTimeout], sock := sock s @ [[0, 0, 0, 0, 0, 0xfe, 0, 0]]\<rparr>
          else s)"
  by (simp add: hb_check_def send_hb_request_eq)

section \<open>Dispatch: one equation per case\<close>

lemma handle_short: "length data < 6 \<Longrightarrow> handle t_hb t_chk s data = Inl IndexError"
  by (simp add: handle_def handle_payload_eq handle_msg_type_short)

lemma handle_unknown:
  assumes "6 \<le> length data" and "MessageType_of (uint (data ! 5)) = None"
  shows "handle t_hb t_chk s data =
     Inr (s\<lparr>cipher := (cipher s)\<lparr>counter := counter (cipher s) + (length data - 8)\<rparr>,
            logged := logged s @ [LogInvalidMessageType (uint (data ! 5))]\<rparr>)"
  using assms by (simp add: handle_def handle_payload_eq handle_msg_type_eq)

lemma handle_heartbeat_request:
  assumes "6 \<le> length data" and "MessageType_of (uint (data ! 5)) = Some HEARTBEAT_REQUEST"
  shows "handle t_hb t_chk s data =
     hb_check t_chk
       (s\<lparr>hb_last := t_hb,
          cipher := (cipher s)\<lparr>counter := counter (cipher s) + (length data - 8) + 8\<rparr>,
          sock := sock s @ [[0, 0, 0, 8, 1, 0xfe, 0, 0] @ HEARTBEAT_RESPONSE_bytes]\<rparr>)"
  using assms
  by (simp add: handle_def handle_payload_eq handle_msg_type_eq send_hb_response_eq)

lemma handle_session_id:
  assumes "6 \<le> length data" and "MessageType_of (uint (data ! 5)) = Some SESSION_ID"
  shows "handle t_hb t_chk s data =
     (let sid = drop 2 (xor_keystream (cipher s) (drop 8 data));
          s1 = s\<lparr>cipher := (cipher s)\<lparr>counter := counter (cipher s) + (length data - 8)\<rparr>\<rparr>
      in if \<not> utf8_valid sid then Inr (s1\<lparr>logged := logged s @ [LogMalformedSessionID]\<rparr>)
         else hb_check t_chk
                (if has_cb_start s then s1\<lparr>session_id := sid, calls := calls s @ [CbStart]\<rparr>
                 else start_stream (s1\<lparr>session_id := sid\<rparr>)))"
  using assms
  by (simp add: handle_def handle_payload_eq handle_msg_type_eq Let_def)

lemma handle_other:
  assumes "6 \<le> length data" and "MessageType_of (uint (data ! 5)) = Some m"
    and "m \<noteq> HEARTBEAT_REQUEST" and "m \<noteq> SESSION_ID"
  shows "handle t_hb t_chk s data =
     hb_check t_chk
       (s\<lparr>cipher := (cipher s)\<lparr>counter := counter (cipher s) + (length data - 8)\<rparr>\<rparr>)"
proof -
  have "m \<noteq> HEARTBEAT_RESPONSE" using assms(2) MessageType_of_byte(1) by metis
  with assms show ?thesis
    by (simp add: handle_def handle_payload_eq handle_msg_type_eq)
qed

section \<open>Dispatch: results\<close>

lemma handle_total:
  assumes "6 \<le> length data"
  shows "\<exists>s'. handle t_hb t_chk s data = Inr s'"
proof (cases "MessageType_of (uint (data ! 5))")
  case None
  with assms show ?thesis by (simp add: handle_unknown)
next
  case (Some m)
  consider "m = HEARTBEAT_REQUEST" | "m = SESSION_ID" | "m \<noteq> HEARTBEAT_REQUEST" "m \<noteq> SESSION_ID"
    by blast
  then show ?thesis
  proof cases
    case 1
    with assms Some show ?thesis by (simp add: handle_heartbeat_request hb_check_eq)
  next
    case 2
    with assms Some show ?thesis by (simp add: handle_session_id hb_check_eq Let_def)
  next
    case 3
    with assms Some show ?thesis by (simp add: handle_other hb_check_eq)
  qed
qed

lemma handle_same_type_and_tail:
  assumes "6 \<le> length data" and "6 \<le> length data'"
    and "data ! 5 = data' ! 5" and "drop 8 data = drop 8 data'"
  shows "handle t_hb t_chk s data = handle t_hb t_chk s data'"
proof -
  have "length (drop 8 data) = length (drop 8 data')" using assms(4) by simp
  then have "length data - 8 = length data' - 8" by simp
  with assms show ?thesis
    by (simp add: handle_def handle_payload_eq handle_msg_type_eq)
qed

lemma handle_cipher:
  assumes "6 \<le> length data" and "handle t_hb t_chk s data = Inr s'"
  shows "keystream (cipher s') = keystream (cipher s) \<and>
     counter (cipher s') = counter (cipher s) + (length data - 8) +
       (if MessageType_of (uint (data ! 5)) = Some HEARTBEAT_REQUEST then 8 else 0)"
proof (cases "MessageType_of (uint (data ! 5))")
  case None
  with assms show ?thesis by (auto simp: handle_unknown)
next
  case (Some m)
  consider "m = HEARTBEAT_REQUEST" | "m = SESSION_ID"
    | "m \<noteq> HEARTBEAT_REQUEST" "m \<noteq> SESSION_ID"
    by blast
  then show ?thesis
  proof cases
    case 1
    with assms Some show ?thesis
      by (auto simp: handle_heartbeat_request hb_check_eq split: if_splits)
  next
    case 2
    with assms Some show ?thesis
      by (auto simp: handle_session_id hb_check_eq Let_def start_stream_def split: if_splits)
  next
    case 3
    with assms Some show ?thesis
      by (auto simp: handle_other hb_check_eq split: if_splits)
  qed
qed

lemma handle_session_id_result:
  assumes "6 \<le> length data" and "MessageType_of (uint (data ! 5)) = Some SESSION_ID"
    and "handle t_hb t_chk s data = Inr s'"
  shows "if utf8_valid (drop 2 (fst (decrypt (cipher s) (drop 8 data))))
     then session_id s' = drop 2 (fst (decrypt (cipher s) (drop 8 data)))
     else session_id s' = session_id s \<and> logged s' = logged s @ [LogMalformedSessionID]"
  using assms
  by (auto simp: handle_session_id decrypt_def hb_check_eq Let_def start_stream_def
      split: if_splits)

text \<open>
  Claim C10. Dispatch validates nothing about the frame. A buffer of fewer than 6 bytes
  raises IndexError, which the listener does not catch. A buffer of 6 bytes or more is
  always dispatched: every byte after offset 8 is decrypted as one payload, so the cipher
  advances by the number of those bytes (and by the 8 bytes of the echo when a heartbeat
  request is answered), whatever the declared payload length says; the type is looked up
  from byte 5 alone, which is what an unknown-type warning reports; and a \<open>SESSION_ID\<close>
  stores the decryption of those bytes, less the 2-byte prefix, or is dropped as
  malformed. Two buffers that agree on byte 5 and on the bytes from offset 8 on are
  handled alike.
\<close>

theorem dispatch_no_frame_validation:
  "(length data < 6 \<longrightarrow> handle t_hb t_chk s data = Inl IndexError) \<and>
   (0 < length data \<and> length data < 6 \<longrightarrow>
      listener ctrl_handle w (Recv data (t_hb, t_chk) # evs) = Inl IndexError) \<and>
   (6 \<le> length data \<longrightarrow>
      (\<exists>s'. handle t_hb t_chk s data = Inr s' \<and>
         keystream (cipher s') = keystream (cipher s) \<and>
         counter (cipher s') = counter (cipher s) + length (drop 8 data) +
           (if MessageType_of (uint (data ! 5)) = Some HEARTBEAT_REQUEST then 8 else 0) \<and>
         (MessageType_of (uint (data ! 5)) = None \<longrightarrow>
            logged s' = logged s @ [LogInvalidMessageType (uint (data ! 5))]) \<and>
         (MessageType_of (uint (data ! 5)) = Some SESSION_ID \<longrightarrow>
            (if utf8_valid (drop 2 (fst (decrypt (cipher s) (drop 8 data))))
             then session_id s' = drop 2 (fst (decrypt (cipher s) (drop 8 data)))
             else session_id s' = session_id s \<and>
                  logged s' = logged s @ [LogMalformedSessionID])))) \<and>
   (6 \<le> length data \<and> 6 \<le> length data' \<and> data ! 5 = data' ! 5 \<and> drop 8 data = drop 8 data'
      \<longrightarrow> handle t_hb t_chk s data = handle t_hb t_chk s data')"
proof -
  have i: "length data < 6 \<longrightarrow> handle t_hb t_chk s data = Inl IndexError"
    by (simp add: handle_short)
  have l: "0 < length data \<and> length data < 6 \<longrightarrow>
      listener ctrl_handle w (Recv data (t_hb, t_chk) # evs) = Inl IndexError"
    by (simp add: listener_def ctrl_handle_def handle_short)
  have d: "6 \<le> length data \<longrightarrow>
      (\<exists>s'. handle t_hb t_chk s data = Inr s' \<and>
         keystream (cipher s') = keystream (cipher s) \<and>
         counter (cipher s') = counter (cipher s) + length (drop 8 data) +
           (if MessageType_of (uint (data ! 5)) = Some HEARTBEAT_REQUEST then 8 else 0) \<and>
         (MessageType_of (uint (data ! 5)) = None \<longrightarrow>
            logged s' = logged s @ [LogInvalidMessageType (uint (data ! 5))]) \<and>
         (MessageType_of (uint (data ! 5)) = Some SESSION_ID \<longrightarrow>
            (if utf8_valid (drop 2 (fst (decrypt (cipher s) (drop 8 data))))
             then session_id s' = drop 2 (fst (decrypt (cipher s) (drop 8 data)))
             else session_id s' = session_id s \<and>
                  logged s' = logged s @ [LogMalformedSessionID])))"
  proof
    assume len: "6 \<le> length data"
    then obtain s' where s': "handle t_hb t_chk s data = Inr s'"
      using handle_total by blast
    have c: "keystream (cipher s') = keystream (cipher s) \<and>
        counter (cipher s') = counter (cipher s) + length (drop 8 data) +
          (if MessageType_of (uint (data ! 5)) = Some HEARTBEAT_REQUEST then 8 else 0)"
      using handle_cipher [OF len s'] by simp
    have u: "MessageType_of (uint (data ! 5)) = None \<longrightarrow>
        logged s' = logged s @ [LogInvalidMessageType (uint (data ! 5))]"
      using len s' by (auto simp: handle_unknown)
    have k: "MessageType_of (uint (data ! 5)) = Some SESSION_ID \<longrightarrow>
        (if utf8_valid (drop 2 (fst (decrypt (cipher s) (drop 8 data))))
         then session_id s' = drop 2 (fst (decrypt (cipher s) (drop 8 data)))
         else session_id s' = session_id s \<and> logged s' = logged s @ [LogMalformedSessionID])"
    proof
      assume m: "MessageType_of (uint (data ! 5)) = Some SESSION_ID"
      show "if utf8_valid (drop 2 (fst (decrypt (cipher s) (drop 8 data))))
         then session_id s' = drop 2 (fst (decrypt (cipher s) (drop 8 data)))
         else session_id s' = session_id s \<and> logged s' = logged s @ [LogMalformedSessionID]"
        by (rule handle_session_id_result [OF len m s'])
    qed
    from c have c1: "keystream (cipher s') = keystream (cipher s)"
      and c2: "counter (cipher s') = counter (cipher s) + length (drop 8 data) +
          (if MessageType_of (uint (data ! 5)) = Some HEARTBEAT_REQUEST then 8 else 0)"
      by (rule conjunct1, rule conjunct2)
    from s' c1 c2 u k show "\<exists>s'. handle t_hb t_chk s data = Inr s' \<and>
         keystream (cipher s') = keystream (cipher s) \<and>
         counter (cipher s') = counter (cipher s) + length (drop 8 data) +
           (if MessageType_of (uint (data ! 5)) = Some HEARTBEAT_REQUEST then 8 else 0) \<and>
         (MessageType_of (uint (data ! 5)) = None \<longrightarrow>
            logged s' = logged s @ [LogInvalidMessageType (uint (data ! 5))]) \<and>
         (MessageType_of (uint (data ! 5)) = Some SESSION_ID \<longrightarrow>
            (if utf8_valid (drop 2 (fst (decrypt (cipher s) (drop 8 data))))
             then session_id s' = drop 2 (fst (decrypt (cipher s) (drop 8 data)))
             else session_id s' = session_id s \<and>
                  logged s' = logged s @ [LogMalformedSessionID]))"
      by (intro exI [of _ s'] conjI)
  qed
  have e: "6 \<le> length data \<and> 6 \<le> length data' \<and> data ! 5 = data' ! 5 \<and>
      drop 8 data = drop 8 data' \<longrightarrow> handle t_hb t_chk s data = handle t_hb t_chk s data'"
    by (blast intro: handle_same_type_and_tail)
  from i l d e show ?thesis
    by (intro conjI)
qed

lemma handle_payload_of_encrypt:
  "length header = 8 \<Longrightarrow> fst (handle_payload s (header @ fst (encrypt (cipher s) p))) = p"
  by (simp add: handle_payload_eq encrypt_def xor_keystream_involution)

lemma MessageType_of_0x33: "MessageType_of 0x33 = Some SESSION_ID"
  by (simp add: MessageType_of_def MessageType_members_def)

lemma decrypt_of_encrypt: "fst (decrypt c (fst (encrypt c p))) = p"
  by (simp add: decrypt_def encrypt_def xor_keystream_involution)

lemma encrypt_length: "length (fst (encrypt c p)) = length p"
  by (simp add: encrypt_def xor_keystream_length)

theorem dispatch_no_frame_validation_witness:
  "handle (F64 1 0) (F64 2 0) (CTRL_init example_cipher False) [0, 0, 0, 0, 0x33] = Inl IndexError \<and>
   listener ctrl_handle
     \<lparr>stop_event = False, sock_closed = False, session = CTRL_init example_cipher False\<rparr>
     [Recv [0, 0, 0, 0, 0x33] (F64 1 0, F64 2 0)] = Inl IndexError \<and>
   (\<exists>s'. handle (F64 1 0) (F64 2 0) (CTRL_init example_cipher False)
       ([0xFF, 0xFF, 0xFF, 0xFF, 0, 0x33, 0, 0] @ fst (encrypt example_cipher [0, 0, 0x41, 0x42]))
       = Inr s' \<and>
      counter (cipher s') = 4 \<and> session_id s' = [0x41, 0x42]) \<and>
   handle (F64 1 0) (F64 2 0) (CTRL_init example_cipher False)
       ([0xFF, 0xFF, 0xFF, 0xFF, 0, 0x33, 0, 0] @ fst (encrypt example_cipher [0, 0, 0x41, 0x42])) =
     handle (F64 1 0) (F64 2 0) (CTRL_init example_cipher False)
       ([0, 0, 0, 4, 9, 0x33, 0, 0] @ fst (encrypt example_cipher [0, 0, 0x41, 0x42]))"
proof -
  let ?s = "CTRL_init example_cipher False"
  let ?w = "\<lparr>stop_event = False, sock_closed = False, session = ?s\<rparr>"
  let ?p = "fst (encrypt example_cipher [0, 0, 0x41, 0x42])"
  let ?d = "[0xFF, 0xFF, 0xFF, 0xFF, 0, 0x33, 0, 0] @ ?p"
  let ?d' = "[0, 0, 0, 4, 9, 0x33, 0, 0] @ ?p"
  have c: "cipher ?s = example_cipher" "counter example_cipher = 0"
    by (simp_all add: CTRL_init_def example_cipher_def)
  note a = dispatch_no_frame_validation
    [of "[0, 0, 0, 0, 0x33]" "F64 1 0" "F64 2 0" ?s ?w "[]" "[0, 0, 0, 0, 0x33]"]
  note b = dispatch_no_frame_validation [of ?d "F64 1 0" "F64 2 0" ?s ?w "[]" ?d']
  have 1: "handle (F64 1 0) (F64 2 0) ?s [0, 0, 0, 0, 0x33] = Inl IndexError" using a by simp
  have 2: "listener ctrl_handle ?w [Recv [0, 0, 0, 0, 0x33] (F64 1 0, F64 2 0)] = Inl IndexError"
    using a by simp
  have len: "6 \<le> length ?d" "6 \<le> length ?d'" by simp_all
  have t: "?d ! 5 = ?d' ! 5" "drop 8 ?d = drop 8 ?d'" "drop 8 ?d = ?p" by simp_all
  have m: "MessageType_of (uint (?d ! 5)) = Some SESSION_ID"
    by (simp add: MessageType_of_0x33)
  have v: "utf8_valid (drop 2 (fst (decrypt (cipher ?s) (drop 8 ?d))))"
    "drop 2 (fst (decrypt (cipher ?s) (drop 8 ?d))) = [0x41, 0x42]"
    unfolding t(3) c(1) decrypt_of_encrypt by simp_all
  from b len obtain s' where s': "handle (F64 1 0) (F64 2 0) ?s ?d = Inr s'"
    and k: "counter (cipher s') = counter (cipher ?s) + length (drop 8 ?d) +
           (if MessageType_of (uint (?d ! 5)) = Some HEARTBEAT_REQUEST then 8 else 0)"
    and i: "MessageType_of (uint (?d ! 5)) = Some SESSION_ID \<longrightarrow>
            (if utf8_valid (drop 2 (fst (decrypt (cipher ?s) (drop 8 ?d))))
             then session_id s' = drop 2 (fst (decrypt (cipher ?s) (drop 8 ?d)))
             else session_id s' = session_id ?s \<and>
                  logged s' = logged ?s @ [LogMalformedSessionID])"
    by blast
  from i m v have sid: "session_id s' = [0x41, 0x42]" by simp
  from k m have cnt: "counter (cipher s') = 4"
    unfolding t(3) c by (simp add: encrypt_length)
  from s' cnt sid have 3: "\<exists>s'. handle (F64 1 0) (F64 2 0) ?s ?d = Inr s' \<and>
      counter (cipher s') = 4 \<and> session_id s' = [0x41, 0x42]"
    by blast
  from b len t(1,2) have 4: "handle (F64 1 0) (F64 2 0) ?s ?d = handle (F64 1 0) (F64 2 0) ?s ?d'"
    by blast
  from 1 2 3 4 show ?thesis by (intro conjI)
qed

text \<open>
  Claim C6 on a concrete frame: the type 0x0133 is outside the enumeration, yet the frame
  is not reported and not dropped. Byte 5 is 0x33, so it is dispatched as a
  \<open>SESSION_ID\<close>: the session id is set, the callback is called and nothing is logged.
\<close>

theorem unknown_u16_type_dispatched_by_low_byte:
  "from_b [0x01, 0x33] = 0x0133 \<and> MessageType_of 0x0133 = None \<and>
   handle (F64 1 0) (F64 2 0) (CTRL_init example_cipher True)
     ([0, 0, 0, 8, 0x01, 0x33, 0, 0] @
      fst (encrypt example_cipher [0, 0, 0x41, 0x42, 0x43, 0x31, 0x32, 0x33])) =
     Inr ((CTRL_init example_cipher True)
            \<lparr>session_id := [0x41, 0x42, 0x43, 0x31, 0x32, 0x33],
             cipher := example_cipher\<lparr>counter := 8\<rparr>,
             calls := [CbStart]\<rparr>) \<and>
   logged ((CTRL_init example_cipher True)
            \<lparr>session_id := [0x41, 0x42, 0x43, 0x31, 0x32, 0x33],
             cipher := example_cipher\<lparr>counter := 8\<rparr>,
             calls := [CbStart]\<rparr>) = []"
proof -
  have x: "xor_keystream c (fst (encrypt c p)) = p" for c p
    by (simp add: encrypt_def xor_keystream_involution)
  show ?thesis
    by (simp add: handle_session_id MessageType_of_0x33 x encrypt_length hb_check_eq
        CTRL_init_def example_cipher_def Let_def from_b_def MessageType_of_def
        MessageType_members_def bitlen_numeral round_half_even_def)
qed

text \<open>
  Claim C9. A \<open>SESSION_ID\<close> frame whose payload, after the 2-byte prefix, is not valid
  text is dropped without an exception: dispatch returns, the stored session id, the
  socket, the send queue and the collaborator calls are what they were, and the only trace
  is the warning.
\<close>

theorem malformed_session_id_dropped:
  assumes "6 \<le> length data" and "MessageType_of (uint (data ! 5)) = Some SESSION_ID"
    and "\<not> utf8_valid (drop 2 (fst (handle_payload s data)))"
  shows "\<exists>s'. handle t_hb t_chk s data = Inr s' \<and>
     session_id s' = session_id s \<and> sock s' = sock s \<and> send_buf s' = send_buf s \<and>
     calls s' = calls s \<and> hb_last s' = hb_last s \<and> state s' = state s \<and>
     logged s' = logged s @ [LogMalformedSessionID]"
  using assms by (simp add: handle_session_id handle_payload_eq Let_def)

theorem malformed_session_id_dropped_witness:
  "6 \<le> length ([0, 0, 0, 4, 0, 0x33, 0, 0] @ fst (encrypt example_cipher [0, 0, 0xFF, 0xFE])) \<and>
   MessageType_of (uint (([0, 0, 0, 4, 0, 0x33, 0, 0] @
       fst (encrypt example_cipher [0, 0, 0xFF, 0xFE])) ! 5)) = Some SESSION_ID \<and>
   \<not> utf8_valid (drop 2 (fst (handle_payload (CTRL_init example_cipher False)
       ([0, 0, 0, 4, 0, 0x33, 0, 0] @ fst (encrypt example_cipher [0, 0, 0xFF, 0xFE]))))) \<and>
   (\<exists>s'. handle (F64 1 0) (F64 2 0) (CTRL_init example_cipher False)
           ([0, 0, 0, 4, 0, 0x33, 0, 0] @ fst (encrypt example_cipher [0, 0, 0xFF, 0xFE])) = Inr s' \<and>
      session_id s' = session_id (CTRL_init example_cipher False) \<and>
      sock s' = sock (CTRL_init example_cipher False) \<and>
      send_buf s' = send_buf (CTRL_init example_cipher False) \<and>
      calls s' = calls (CTRL_init example_cipher False) \<and>
      logged s' = logged (CTRL_init example_cipher False) @ [LogMalformedSessionID])"
proof -
  let ?s = "CTRL_init example_cipher False"
  let ?d = "[0, 0, 0, 4, 0, 0x33, 0, 0] @ fst (encrypt example_cipher [0, 0, 0xFF, 0xFE])"
  have c: "cipher ?s = example_cipher" by (simp add: CTRL_init_def)
  have a: "6 \<le> length ?d" by simp
  have b: "MessageType_of (uint (?d ! 5)) = Some SESSION_ID"
    by (simp add: MessageType_of_0x33)
  have p: "fst (handle_payload ?s ?d) = [0, 0, 0xFF, 0xFE]"
    using handle_payload_of_encrypt [of "[0, 0, 0, 4, 0, 0x33, 0, 0]" ?s "[0, 0, 0xFF, 0xFE]"]
    by (simp add: c)
  have u: "\<not> utf8_valid (drop 2 (fst (handle_payload ?s ?d)))"
    unfolding p by simp
  from malformed_session_id_dropped [OF a b u, of "F64 1 0" "F64 2 0"] a b u show ?thesis
    by blast
qed

section \<open>Session identity and the heartbeat check\<close>









section \<open>Encoding and the round trip\<close>

text \<open>
  Claim C1 on a concrete call: the frame for a \<open>HEARTBEAT_RESPONSE\<close> has the 8-byte
  header of the claim and the cipher has advanced by the 8 bytes of the payload, but the
  bytes after the header are the payload itself, not its encryption.
\<close>

theorem build_msg_sends_plaintext:
  "build_msg example_cipher (MessageType_value HEARTBEAT_RESPONSE) HEARTBEAT_RESPONSE_bytes =
     (example_cipher\<lparr>counter := 8\<rparr>,
      Inr ([0x00, 0x00, 0x00, 0x08, 0x01, 0xfe, 0x00, 0x00] @ HEARTBEAT_RESPONSE_bytes)) \<and>
   fst (encrypt example_cipher HEARTBEAT_RESPONSE_bytes) = [11, 48, 85, 122, 158, 58, 233, 14] \<and>
   fst (encrypt example_cipher HEARTBEAT_RESPONSE_bytes) \<noteq> HEARTBEAT_RESPONSE_bytes"
  by (simp add: build_msg_def encrypt_def xor_keystream_def pack_into_IHxxs_def pack_be_4 pack_be_2
      HEARTBEAT_RESPONSE_bytes_def example_cipher_def example_keystream_def upt_rec)

text \<open>
  Claim C2 on concrete frames: the frame built for \<open>HEARTBEAT_RESPONSE\<close> (0x1fe) is
  read back as \<open>HEARTBEAT_REQUEST\<close> (0xfe), since only byte 5 is read; and a payload that
  was framed in the clear is decrypted on receipt, which changes it.
\<close>

theorem roundtrip_loses_type_and_payload:
  "snd (build_msg example_cipher (MessageType_value HEARTBEAT_RESPONSE) []) =
     Inr [0, 0, 0, 0, 0x01, 0xfe, 0, 0] \<and>
   handle_msg_type [0, 0, 0, 0, 0x01, 0xfe, 0, 0] = Inr (0xfe, Some HEARTBEAT_REQUEST) \<and>
   snd (build_msg example_cipher (MessageType_value LOGIN) [1, 2, 3]) =
     Inr [0, 0, 0, 3, 0, 0x05, 0, 0, 1, 2, 3] \<and>
   fst (handle_payload (CTRL_init example_cipher False) [0, 0, 0, 3, 0, 0x05, 0, 0, 1, 2, 3]) =
     [10, 50, 86]"
  by (simp add: build_msg_def encrypt_def decrypt_def xor_keystream_def pack_into_IHxxs_def
      pack_be_4 pack_be_2 handle_msg_type_def getitem_def MessageType_of_def
      MessageType_members_def handle_payload_def CTRL_init_def
      example_cipher_def example_keystream_def upt_rec)

section \<open>The socket and the send queue\<close>

text \<open>
  Claim C3, as amended. The three outbound helpers write their frame to the socket during
  the call and leave the send queue as it is; a buffer that is on the send queue is
  written by \<open>send\<close>, which moves the oldest one, if there is one, to the socket.
\<close>

theorem helpers_write_to_socket:
  "send_hb_response s =
     Inr (s\<lparr>cipher := (cipher s)\<lparr>counter := counter (cipher s) + 8\<rparr>,
            sock := sock s @ [[0, 0, 0, 8, 1, 0xfe, 0, 0] @ HEARTBEAT_RESPONSE_bytes]\<rparr>) \<and>
   send_hb_request s = Inr (s\<lparr>sock := sock s @ [[0, 0, 0, 0, 0, 0xfe, 0, 0]]\<rparr>) \<and>
   send_standby s = Inr (s\<lparr>sock := sock s @ [[0, 0, 0, 0, 0, 0x50, 0, 0]]\<rparr>) \<and>
   sock (send s) = sock s @ take 1 (send_buf s) \<and>
   send_buf (send s) = drop 1 (send_buf s)"
proof -
  have q: "sock (send s) = sock s @ take 1 (send_buf s)" "send_buf (send s) = drop 1 (send_buf s)"
    by (simp_all add: send_def split: list.splits)
  from send_hb_response_eq send_hb_request_eq send_standby_eq q show ?thesis
    by (intro conjI)
qed

text \<open>
  Claim C3 as stated fails: in a new session \<open>_send_standby\<close> puts its frame on the
  socket at once, and the send queue stays empty.
\<close>

theorem standby_bypasses_queue:
  "send_standby (CTRL_init example_cipher False) =
     Inr ((CTRL_init example_cipher False)\<lparr>sock := [[0, 0, 0, 0, 0, 0x50, 0, 0]]\<rparr>) \<and>
   send_buf ((CTRL_init example_cipher False)\<lparr>sock := [[0, 0, 0, 0, 0, 0x50, 0, 0]]\<rparr>) = [] \<and>
   worker ((CTRL_init example_cipher False)\<lparr>sock := [[0, 0, 0, 0, 0, 0x50, 0, 0]]\<rparr>) = False"
  by (simp add: send_standby_eq CTRL_init_def)

section \<open>The init phase: results\<close>

text \<open>
  Claim C8 on concrete responses. A status 403 with the unlisted reason code 0x80108b00
  is not classified as unknown: \<open>CTRL.Error\<close> raises ValueError, which leaves
  \<open>_parse_init\<close>, \<open>connect\<close> and \<open>start\<close>. A status 403 with a listed reason and a
  nonce header (here in lower case) is logged as a failed init and then goes on to the
  auth phase; when that succeeds the session is started.
\<close>

theorem init_rejection_unlisted_or_with_nonce:
  "parse_init (\<lambda>x. Inl Base64Error) (CTRL_init example_cipher False)
     \<lparr>status_code = 403, headers = [(''RP-Application-Reason'', ''80108b00'')]\<rparr> =
     Inl ValueError \<and>
   start True (\<lambda>x. Inl Base64Error) (\<lambda>s nonce. Inr (s, True)) (CTRL_init example_cipher False)
     \<lparr>status_code = 403, headers = [(''RP-Application-Reason'', ''80108b00'')]\<rparr> =
     Inl ValueError \<and>
   start True
     (\<lambda>x. if x = ''AAAAAAAAAAAAAAAAAAAAAA=='' then Inr (replicate 16 0) else Inl Base64Error)
     (\<lambda>s nonce. Inr (s, True)) (CTRL_init example_cipher False)
     \<lparr>status_code = 403,
      headers = [(''RP-Application-Reason'', ''80108b10''),
                 (''rp-nonce'', ''AAAAAAAAAAAAAAAAAAAAAA=='')]\<rparr> =
     Inr ((CTRL_init example_cipher False)
            \<lparr>logged := [LogFailedInit RP_IN_USE, LogAuthSuccess], state := STATE_READY,
             worker := True\<rparr>, None)"
  by (simp add: start_def connect_def parse_init_def headers_get_def lower_def isspace_def
      hexval_def from_b_def Error_of_def Error_members_def CTRL_init_def)

end
